theory Spec2Isabelle
  imports Complex_Main "HOL-Library.Sublist"
begin

section \<open>Errors and byte streams\<close>

text \<open>
  The package under verification is \<^verbatim>\<open>axiom\<close> (files \<^verbatim>\<open>axiom/client.go\<close> and
  \<^verbatim>\<open>axiom/datasets.go\<close>). Go's \<^verbatim>\<open>error\<close> values are modelled by one datatype: the
  sentinel errors of the package, the errors it builds with \<^verbatim>\<open>errors.New\<close> and
  \<^verbatim>\<open>fmt.Errorf\<close>, its two structured errors (\<^verbatim>\<open>*Error\<close>, \<^verbatim>\<open>*LimitError\<close>), and
  the errors that come out of the standard library and third party packages
  (\<open>External\<close>, identified by their text). \<open>Errorf f n\<close> is \<^verbatim>\<open>fmt.Errorf(f, n)\<close>
  and \<open>ErrorfW f n e\<close> is \<^verbatim>\<open>fmt.Errorf(f, n, e)\<close> with \<^verbatim>\<open>%w\<close> wrapping \<open>e\<close>;
  \<open>NilDereference\<close> is the run-time panic of reading through a nil pointer.
\<close>

text \<open>
  Modelled from the spec: the type \<^verbatim>\<open>Limit\<close> (declared in a file that is not part of
  the sources) is the rate-limit metadata of a response: limit, remaining and reset.
\<close>

record Limit =
  limit :: nat
  remaining :: nat
  reset :: nat

record Error =
  Status :: int
  Message :: string

datatype error =
    EOF
  | ErrInvalidUnreadRune
  | errorString string
  | Errorf string int
  | ErrorfW string int error
  | ErrUnprivilegedToken
  | ErrUnauthenticated
  | ErrUnauthorized
  | ErrNotFound
  | ErrExists
  | LimitError Limit
  | HTTPError Error
  | NilDereference
  | External string

text \<open>
  An \<^verbatim>\<open>io.Reader\<close> is the bytes it still delivers and the error it returns once they
  are used up (\<open>EOF\<close> for an in-memory reader or a pipe closed without error).
\<close>

record io_Reader =
  data :: string
  final :: error

definition strings_NewReader :: "string \<Rightarrow> io_Reader" where
  "strings_NewReader s = \<lparr>data = s, final = EOF\<rparr>"

definition ReadAll :: "io_Reader \<Rightarrow> error + string" where
  "ReadAll r = (if final r = EOF then Inr (data r) else Inl (final r))"

section \<open>DetectContentType (datasets.go)\<close>

datatype ContentType = JSON | NDJSON | CSV

type_synonym rune = nat

text \<open>
  The functions of \<^verbatim>\<open>unicode\<close> and \<^verbatim>\<open>unicode/utf8\<close> that \<^verbatim>\<open>DetectContentType\<close>
  reaches are parameters: the two character tables, and the cut of a byte string into
  the runes that successive \<^verbatim>\<open>ReadRune\<close> calls decode, each rune with the bytes it was
  decoded from.
\<close>

record unicode =
  IsLetter :: "rune \<Rightarrow> bool"
  IsSpace :: "rune \<Rightarrow> bool"
  DecodeRunes :: "string \<Rightarrow> (rune \<times> string) list"

text \<open>
  \<^verbatim>\<open>bufio.Reader\<close>: what has not been consumed yet (the unread part of its buffer
  followed by what the underlying reader still holds), the underlying reader's final
  error, and the rune the last \<^verbatim>\<open>ReadRune\<close> returned (\<^verbatim>\<open>lastRuneSize >= 0\<close>).
\<close>

record bufio_Reader =
  unread :: "(rune \<times> string) list"
  rd_err :: error
  lastRune :: "(rune \<times> string) option"

definition bufio_NewReader :: "unicode \<Rightarrow> io_Reader \<Rightarrow> bufio_Reader" where
  "bufio_NewReader U r = \<lparr>unread = DecodeRunes U (data r), rd_err = final r, lastRune = None\<rparr>"

definition ReadRune :: "bufio_Reader \<Rightarrow> error + (rune \<times> bufio_Reader)" where
  "ReadRune br = (case unread br of
      [] \<Rightarrow> Inl (rd_err br)
    | x # xs \<Rightarrow> Inr (fst x, br\<lparr>unread := xs, lastRune := Some x\<rparr>))"

definition UnreadRune :: "bufio_Reader \<Rightarrow> error + bufio_Reader" where
  "UnreadRune br = (case lastRune br of
      None \<Rightarrow> Inl ErrInvalidUnreadRune
    | Some x \<Rightarrow> Inr (br\<lparr>unread := x # unread br, lastRune := None\<rparr>))"

text \<open>
  \<^verbatim>\<open>io.MultiReader(bytes.NewReader(br.Peek(br.Buffered())), r)\<close>: the bytes of the
  buffer that have not been consumed, then the rest of \<^verbatim>\<open>r\<close>. Bytes that
  \<^verbatim>\<open>ReadRune\<close> consumed (and that no \<^verbatim>\<open>UnreadRune\<close> gave back) are in neither.
  \<^verbatim>\<open>Peek\<close> of as many bytes as are buffered does not fail.
\<close>

definition Peek_Buffered_then_rest :: "bufio_Reader \<Rightarrow> io_Reader" where
  "Peek_Buffered_then_rest br = \<lparr>data = concat (map snd (unread br)), final = rd_err br\<rparr>"

text \<open>The tail of the loop body: \<^verbatim>\<open>typ\<close> is set, \<^verbatim>\<open>br.UnreadRune()\<close>, \<^verbatim>\<open>break\<close>.\<close>

definition unread_and_break :: "ContentType \<Rightarrow> bufio_Reader \<Rightarrow> error + (ContentType \<times> bufio_Reader)" where
  "unread_and_break typ br = (case UnreadRune br of
      Inl err \<Rightarrow> Inl err
    | Inr br' \<Rightarrow> Inr (typ, br'))"

text \<open>The \<^verbatim>\<open>for\<close> loop of \<^verbatim>\<open>DetectContentType\<close>, in the order of its branches.\<close>

function detect_loop :: "unicode \<Rightarrow> bufio_Reader \<Rightarrow> error + (ContentType \<times> bufio_Reader)" where
  "detect_loop U br = (case ReadRune br of
      Inl err \<Rightarrow>
        (if err = EOF
         then Inl (errorString ''couldn't find beginning of supported ingestion format'')
         else Inl err)
    | Inr (c, br') \<Rightarrow>
        if c = of_char CHR ''['' then unread_and_break JSON br'
        else if c = of_char CHR ''{'' then unread_and_break NDJSON br'
        else if IsLetter U c \<or> c = of_char (CHR 0x22) then unread_and_break CSV br'
        else if IsSpace U c then detect_loop U br'
        else Inl (errorString ''cannot determine content type''))"
  by pat_completeness auto
termination
  by (relation "measure (\<lambda>(U, br). length (unread br))")
     (auto simp: ReadRune_def split: list.splits)

definition DetectContentType :: "unicode \<Rightarrow> io_Reader \<Rightarrow> error + (io_Reader \<times> ContentType)" where
  "DetectContentType U r = (case detect_loop U (bufio_NewReader U r) of
      Inl err \<Rightarrow> Inl err
    | Inr (typ, br) \<Rightarrow> Inr (Peek_Buffered_then_rest br, typ))"

text \<open>
  An instance of the parameters for ASCII input: every byte is one rune, the letters are
  A-Z and a-z, the white space is tab, line feed, vertical tab, form feed, carriage
  return and space (what \<^verbatim>\<open>unicode.IsLetter\<close> and \<^verbatim>\<open>unicode.IsSpace\<close> say below 128).
\<close>

definition ascii :: unicode where
  "ascii = \<lparr>IsLetter = (\<lambda>c. (65 \<le> c \<and> c \<le> 90) \<or> (97 \<le> c \<and> c \<le> 122)),
            IsSpace = (\<lambda>c. c = 9 \<or> c = 10 \<or> c = 11 \<or> c = 12 \<or> c = 13 \<or> c = 32),
            DecodeRunes = map (\<lambda>b. (of_char b, [b]))\<rparr>"

section \<open>The paths an API token may call (client.go)\<close>

text \<open>
  \<^verbatim>\<open>validOnlyAPITokenPaths\<close> is a regular expression. Regular expressions are a
  datatype, matched by derivatives. The expression of the source starts with \<^verbatim>\<open>^\<close> and
  ends with \<^verbatim>\<open>$\<close> (no flags), so \<^verbatim>\<open>MatchString\<close> holds exactly when the whole
  string is in its language, which is what \<open>MatchString\<close> below decides. \<^verbatim>\<open>[^/]\<close> is
  any character but a slash, \<^verbatim>\<open>.\<close> any character but a line feed. Go matches runes and
  the model bytes: the two agree here, since no byte of a multi-byte UTF-8 sequence is
  a slash, a question mark or a line feed.
\<close>

datatype atom = Byte char | NotByte char | AnyByte

fun accepts :: "atom \<Rightarrow> char \<Rightarrow> bool" where
  "accepts (Byte b) c = (c = b)"
| "accepts (NotByte b) c = (c \<noteq> b)"
| "accepts AnyByte c = (c \<noteq> CHR 0x0A)"

datatype regexp =
    Nothing
  | Epsilon
  | Atom atom
  | Alt regexp regexp
  | Cat regexp regexp
  | Star regexp

definition OneOrMore :: "regexp \<Rightarrow> regexp" where
  "OneOrMore r = Cat r (Star r)"

definition ZeroOrOne :: "regexp \<Rightarrow> regexp" where
  "ZeroOrOne r = Alt r Epsilon"

fun Lit :: "string \<Rightarrow> regexp" where
  "Lit [] = Epsilon"
| "Lit (c # cs) = Cat (Atom (Byte c)) (Lit cs)"

primrec nullable :: "regexp \<Rightarrow> bool" where
  "nullable Nothing = False"
| "nullable Epsilon = True"
| "nullable (Atom a) = False"
| "nullable (Alt r s) = (nullable r \<or> nullable s)"
| "nullable (Cat r s) = (nullable r \<and> nullable s)"
| "nullable (Star r) = True"

primrec deriv :: "char \<Rightarrow> regexp \<Rightarrow> regexp" where
  "deriv c Nothing = Nothing"
| "deriv c Epsilon = Nothing"
| "deriv c (Atom a) = (if accepts a c then Epsilon else Nothing)"
| "deriv c (Alt r s) = Alt (deriv c r) (deriv c s)"
| "deriv c (Cat r s) =
     (if nullable r then Alt (Cat (deriv c r) s) (deriv c s) else Cat (deriv c r) s)"
| "deriv c (Star r) = Cat (deriv c r) (Star r)"

fun MatchString :: "regexp \<Rightarrow> string \<Rightarrow> bool" where
  "MatchString r [] = nullable r"
| "MatchString r (c # cs) = MatchString (deriv c r) cs"

text \<open>
  \<^verbatim>\<open>^/api/v1/datasets/([^/]+/(ingest|query)|_apl)(\?.+)?$\<close>
\<close>

definition validOnlyAPITokenPaths :: regexp where
  "validOnlyAPITokenPaths =
     Cat (Lit ''/api/v1/datasets/'')
       (Cat (Alt (Cat (OneOrMore (Atom (NotByte CHR ''/'')))
                      (Cat (Lit ''/'') (Alt (Lit ''ingest'') (Lit ''query''))))
                 (Lit ''_apl''))
            (ZeroOrOne (Cat (Lit ''?'') (OneOrMore (Atom AnyByte)))))"

section \<open>What the package calls outside the sources\<close>

record URL =
  Scheme :: string
  Host :: string
  Path :: string
  RawQuery :: string

text \<open>\<^verbatim>\<open>config.Config\<close> (package \<^verbatim>\<open>internal/config\<close>), by its accessors.\<close>

record Config =
  BaseURL :: URL
  AccessToken :: string
  OrganizationID :: string

record Request =
  Method :: string
  Target :: string
  Header :: "string \<rightharpoonup> string"
  Body :: "io_Reader option"

record http_Response =
  StatusCode :: int
  RespHeader :: "string \<rightharpoonup> string"
  RespBody :: string

text \<open>
  Modelled from the spec: \<^verbatim>\<open>Response\<close> and \<^verbatim>\<open>newResponse\<close> (in a file that is not
  part of the sources): the response wraps the raw transport response and carries the
  rate-limit metadata, which \<^verbatim>\<open>newResponse\<close> reads from it (\<open>limitOf\<close> below).
\<close>

record Response = http_Response +
  Limit :: Limit

text \<open>
  \<^verbatim>\<open>backoff.ExponentialBackOff\<close> (package \<^verbatim>\<open>github.com/cenkalti/backoff/v4\<close>);
  durations are \<^verbatim>\<open>time.Duration\<close>, a number of nanoseconds.
\<close>

record ExponentialBackOff =
  InitialInterval :: int
  RandomizationFactor :: real
  Multiplier :: real
  MaxInterval :: int
  MaxElapsedTime :: int

definition Millisecond :: int where
  "Millisecond = 1000000"

definition Second :: int where
  "Second = 1000 * Millisecond"

text \<open>
  The functions, constants and tables of other packages that the modelled code uses are
  the fields of one record, a parameter of every definition below:
  \<^item> \<^verbatim>\<open>net/url\<close>: \<^verbatim>\<open>ParseRequestURI\<close>, \<^verbatim>\<open>(*URL).ResolveReference\<close>,
    \<^verbatim>\<open>(*URL).String\<close>;
  \<^item> \<^verbatim>\<open>net/http\<close>: the error of \<^verbatim>\<open>NewRequestWithContext\<close> for a method and a URL
    (\<open>None\<close>: the request is built), and \<^verbatim>\<open>StatusText\<close>;
  \<^item> \<^verbatim>\<open>internal/config\<close>: \<^verbatim>\<open>IsAPIToken\<close> and \<^verbatim>\<open>IsPersonalToken\<close>;
  \<^item> the package's own constant \<^verbatim>\<open>httpStatusLimitExceeded\<close> and the rate-limit
    metadata \<^verbatim>\<open>newResponse\<close> reads, both declared outside the sources;
  \<^item> \<^verbatim>\<open>backoff\<close>: \<^verbatim>\<open>NewExponentialBackOff()\<close>, and how many times in this run
    \<^verbatim>\<open>NextBackOff\<close> of a policy answers with a delay before it answers \<^verbatim>\<open>Stop\<close>
    (\<open>retries_granted\<close>; it depends on the clock and on the random jitter);
  \<^item> \<^verbatim>\<open>encoding/json\<close>: \<^verbatim>\<open>dec.Decode(&errResp)\<close>, where \<^verbatim>\<open>errResp\<close> points to an
    \<^verbatim>\<open>Error\<close> that already holds the status: how many bytes of the body the decoder
    read, and the error or what \<^verbatim>\<open>errResp\<close> points to afterwards. The decoder is given
    the address of the pointer, so it may leave the pointer nil (\<open>None\<close>), as it does
    for the JSON value \<^verbatim>\<open>null\<close>.
  Errors of these packages are texts, which the model wraps in \<open>External\<close>.
\<close>

record lib =
  ParseRequestURI :: "string \<Rightarrow> string + URL"
  ResolveReference :: "URL \<Rightarrow> URL \<Rightarrow> URL"
  URL_String :: "URL \<Rightarrow> string"
  NewRequestWithContext :: "string \<Rightarrow> string \<Rightarrow> string option"
  StatusText :: "int \<Rightarrow> string"
  IsAPIToken :: "string \<Rightarrow> bool"
  IsPersonalToken :: "string \<Rightarrow> bool"
  httpStatusLimitExceeded :: int
  limitOf :: "http_Response \<Rightarrow> Limit"
  NewExponentialBackOff :: ExponentialBackOff
  retries_granted :: "ExponentialBackOff \<Rightarrow> nat"
  decodeError :: "string \<Rightarrow> Error \<Rightarrow> nat \<times> (string + Error option)"

text \<open>
  One call of \<^verbatim>\<open>c.httpClient.Do(req)\<close> either fails in the transport or returns a
  response. The client's transport is a function of the number of the call within one
  \<^verbatim>\<open>Do\<close> (from 0) and of the request.
\<close>

datatype attempt = TransportError string | Reply http_Response

record Client =
  config :: Config
  httpClient :: "nat \<Rightarrow> Request \<Rightarrow> attempt"
  userAgent :: string
  strictDecoding :: bool

definition headerAuthorization :: string where "headerAuthorization = ''Authorization''"
definition headerOrganizationID :: string where "headerOrganizationID = ''X-Axiom-Org-Id''"
definition headerAccept :: string where "headerAccept = ''Accept''"
definition headerContentType :: string where "headerContentType = ''Content-Type''"
definition headerUserAgent :: string where "headerUserAgent = ''User-Agent''"
definition defaultMediaType :: string where "defaultMediaType = ''application/octet-stream''"
definition mediaTypeJSON :: string where "mediaTypeJSON = ''application/json''"
definition mediaTypeNDJSON :: string where "mediaTypeNDJSON = ''application/x-ndjson''"

definition Header_Get :: "(string \<rightharpoonup> string) \<Rightarrow> string \<Rightarrow> string" where
  "Header_Get h k = (case h k of None \<Rightarrow> [] | Some v \<Rightarrow> v)"

section \<open>NewRequest (client.go)\<close>

text \<open>The argument \<^verbatim>\<open>body any\<close>: nil, an \<^verbatim>\<open>io.Reader\<close>, or any other value.\<close>

datatype 'a body = nil | Reader io_Reader | Value 'a

text \<open>
  \<^verbatim>\<open>json.NewEncoder(w).Encode(v)\<close> writes the JSON text of \<open>v\<close> and a line feed to
  \<open>w\<close>, or fails: in \<^verbatim>\<open>json.Marshal\<close> (a parameter) or in the write. \<open>written\<close> is
  what \<open>w\<close> holds already, \<open>write_fails\<close> the error of a write that brings \<open>w\<close> to
  the given content.
\<close>

definition Encoder_Encode ::
  "('a \<Rightarrow> string + string) \<Rightarrow> (string \<Rightarrow> string option) \<Rightarrow> string \<Rightarrow> 'a \<Rightarrow> error + string" where
  "Encoder_Encode marshal write_fails written v = (case marshal v of
      Inl msg \<Rightarrow> Inl (External msg)
    | Inr js \<Rightarrow>
        (case write_fails (written @ js @ [CHR 0x0A]) of
           Some msg \<Rightarrow> Inl (External msg)
         | None \<Rightarrow> Inr (written @ js @ [CHR 0x0A])))"

definition bytes_Buffer :: "string \<Rightarrow> io_Reader" where
  "bytes_Buffer b = \<lparr>data = b, final = EOF\<rparr>"

text \<open>The \<^verbatim>\<open>if body != nil\<close> block: the reader \<^verbatim>\<open>r\<close> and the flag \<^verbatim>\<open>isReader\<close>.\<close>

definition body_reader :: "('a \<Rightarrow> string + string) \<Rightarrow> 'a body \<Rightarrow> error + (io_Reader option \<times> bool)" where
  "body_reader marshal b = (case b of
      nil \<Rightarrow> Inr (None, False)
    | Reader r \<Rightarrow> Inr (Some r, True)
    | Value v \<Rightarrow>
        (case Encoder_Encode marshal (\<lambda>_. None) [] v of
           Inl err \<Rightarrow> Inl err
         | Inr buf \<Rightarrow> Inr (Some (bytes_Buffer buf), False)))"

definition NewRequest ::
  "lib \<Rightarrow> ('a \<Rightarrow> string + string) \<Rightarrow> Client \<Rightarrow> string \<Rightarrow> string \<Rightarrow> 'a body \<Rightarrow> error + Request" where
  "NewRequest L marshal c method path b = (case ParseRequestURI L path of
      Inl msg \<Rightarrow> Inl (External msg)
    | Inr rel \<Rightarrow>
        (let endpoint = ResolveReference L (BaseURL (config c)) rel in
         if IsAPIToken L (AccessToken (config c)) \<and>
            \<not> MatchString validOnlyAPITokenPaths (Path endpoint)
         then Inl ErrUnprivilegedToken
         else (case body_reader marshal b of
             Inl err \<Rightarrow> Inl err
           | Inr (r, isReader) \<Rightarrow>
               (case NewRequestWithContext L method (URL_String L endpoint) of
                  Some msg \<Rightarrow> Inl (External msg)
                | None \<Rightarrow>
                    (let h0 = Map.empty;
                         h1 = (if b \<noteq> nil \<and> \<not> isReader then h0(headerContentType \<mapsto> mediaTypeJSON)
                               else if b \<noteq> nil then h0(headerContentType \<mapsto> defaultMediaType)
                               else h0);
                         h2 = (if AccessToken (config c) \<noteq> []
                               then h1(headerAuthorization \<mapsto> ''Bearer '' @ AccessToken (config c))
                               else h1);
                         h3 = (if IsPersonalToken L (AccessToken (config c)) \<and>
                                  OrganizationID (config c) \<noteq> []
                               then h2(headerOrganizationID \<mapsto> OrganizationID (config c))
                               else h2);
                         h4 = h3(headerAccept \<mapsto> mediaTypeJSON);
                         h5 = h4(headerUserAgent \<mapsto> userAgent c)
                     in Inr \<lparr>Method = method, Target = URL_String L endpoint,
                              Header = h5, Body = r\<rparr>)))))"

section \<open>Do (client.go)\<close>

text \<open>
  \<^verbatim>\<open>backoff.Retry(operation, bck)\<close> calls the operation until it returns nil or the
  policy answers \<^verbatim>\<open>Stop\<close>, and returns the operation's last error. The first argument
  after the operation is the number of delays the policy still grants, the second the
  number of the next call.
\<close>

fun backoff_Retry ::
  "(nat \<Rightarrow> 's \<Rightarrow> error option \<times> 's) \<Rightarrow> nat \<Rightarrow> nat \<Rightarrow> 's \<Rightarrow> error option \<times> 's" where
  "backoff_Retry operation 0 i s = operation i s"
| "backoff_Retry operation (Suc g) i s = (case operation i s of
      (None, s') \<Rightarrow> (None, s')
    | (Some e, s') \<Rightarrow> backoff_Retry operation g (Suc i) s')"

text \<open>
  What the closure passed to \<^verbatim>\<open>backoff.Retry\<close> shares with \<^verbatim>\<open>Do\<close>: the variable
  \<^verbatim>\<open>resp\<close> (with the number of the call that set it), and, for the record, the calls
  made and the calls that returned a response (whose body is open until closed).
\<close>

record retry_state =
  resp :: "(nat \<times> Response) option"
  calls :: nat
  received :: "nat list"

definition newResponse :: "lib \<Rightarrow> http_Response \<Rightarrow> Response" where
  "newResponse L h = \<lparr>StatusCode = StatusCode h, RespHeader = RespHeader h,
                       RespBody = RespBody h, Limit = limitOf L h\<rparr>"

definition operation :: "lib \<Rightarrow> Client \<Rightarrow> Request \<Rightarrow> nat \<Rightarrow> retry_state \<Rightarrow> error option \<times> retry_state" where
  "operation L c req i s = (case httpClient c i req of
      TransportError msg \<Rightarrow> (Some (External msg), s\<lparr>calls := calls s + 1\<rparr>)
    | Reply httpResp \<Rightarrow>
        (let s' = s\<lparr>resp := Some (i, newResponse L httpResp), calls := calls s + 1,
                     received := received s @ [i]\<rparr>
         in if StatusCode httpResp \<ge> 500
            then (Some (Errorf ''got status code %d'' (StatusCode httpResp)), s')
            else (None, s')))"

definition Do_backoff :: "lib \<Rightarrow> ExponentialBackOff" where
  "Do_backoff L = (NewExponentialBackOff L)
     \<lparr>InitialInterval := 200 * Millisecond, Multiplier := 2.0, MaxElapsedTime := 10 * Second\<rparr>"

text \<open>\<^verbatim>\<open>strings.ReplaceAll(s, old, new)\<close> for \<open>old\<close> and \<open>new\<close> of one byte each.\<close>

definition ReplaceAll :: "string \<Rightarrow> char \<Rightarrow> char \<Rightarrow> string" where
  "ReplaceAll s old new = map (\<lambda>b. if b = old then new else b) s"

text \<open>
  The block \<^verbatim>\<open>if statusCode := resp.StatusCode; statusCode >= 400\<close>: the error
  returned. Of a \<^verbatim>\<open>LimitError\<close> the model keeps the field \<^verbatim>\<open>Limit\<close> (the other,
  unexported, field is the response again). \<open>buf\<close> holds what the decoder has read
  from the body through the \<^verbatim>\<open>TeeReader\<close>. When the decoder leaves \<^verbatim>\<open>errResp\<close> nil,
  reading \<^verbatim>\<open>errResp.Message\<close> panics: the block returns nothing, which the model
  writes as \<open>NilDereference\<close>.
\<close>

definition error_of_response :: "lib \<Rightarrow> Response \<Rightarrow> error" where
  "error_of_response L r =
     (let statusCode = StatusCode r in
      if statusCode = 401 then ErrUnauthenticated
      else if statusCode = 403 then ErrUnauthorized
      else if statusCode = 404 then ErrNotFound
      else if statusCode = 409 then ErrExists
      else if statusCode = 429 \<or> statusCode = httpStatusLimitExceeded L then LimitError (Limit r)
      else if \<not> prefix mediaTypeJSON (Header_Get (RespHeader r) headerContentType)
      then HTTPError \<lparr>Status = statusCode, Message = StatusText L statusCode\<rparr>
      else (case decodeError L (RespBody r) \<lparr>Status = statusCode, Message = []\<rparr> of
          (n, Inl msg) \<Rightarrow>
            ErrorfW ''error decoding %d error response: %w'' statusCode (External msg)
        | (n, Inr None) \<Rightarrow> NilDereference
        | (n, Inr (Some errResp)) \<Rightarrow>
            (if Message errResp = []
             then HTTPError (errResp\<lparr>Message := ReplaceAll (take n (RespBody r)) (CHR 0x0A) CHR '' ''\<rparr>)
             else HTTPError errResp)))"

text \<open>
  The argument \<^verbatim>\<open>v any\<close> of \<^verbatim>\<open>Do\<close>: nil, an \<^verbatim>\<open>io.Writer\<close>, or a pointer to decode
  into. What \<^verbatim>\<open>Do\<close> returns, and what it did: the value decoded into \<open>v\<close> or the bytes
  copied to it, the number of calls of the transport, the calls that returned a
  response, and those of them whose body \<^verbatim>\<open>Do\<close> drained and closed. A \<open>do_err\<close> of
  \<open>NilDereference\<close> stands for a panic: \<^verbatim>\<open>Do\<close> returns nothing then (its deferred
  function has run).
\<close>

datatype target = NoTarget | Writer | Pointer

record 'v do_result =
  do_resp :: "Response option"
  do_err :: "error option"
  do_value :: "'v option"
  do_written :: "string option"
  round_trips :: nat
  bodies_received :: "nat list"
  bodies_closed :: "nat list"

text \<open>The block \<^verbatim>\<open>if v != nil\<close> for a response below 400: error, decoded value, copied bytes.\<close>

definition read_response ::
  "(bool \<Rightarrow> string \<Rightarrow> string + 'v) \<Rightarrow> Client \<Rightarrow> Response \<Rightarrow> target
     \<Rightarrow> error option \<times> 'v option \<times> string option" where
  "read_response decode c r v = (case v of
      NoTarget \<Rightarrow> (None, None, None)
    | Writer \<Rightarrow> (None, None, Some (RespBody r))
    | Pointer \<Rightarrow>
        (if prefix mediaTypeJSON (Header_Get (RespHeader r) headerContentType)
         then (case decode (strictDecoding c) (RespBody r) of
             Inl msg \<Rightarrow> (Some (External msg), None, None)
           | Inr x \<Rightarrow> (None, Some x, None))
         else (Some (errorString ''cannot decode response with unknown content type''),
               None, None)))"

definition Do ::
  "lib \<Rightarrow> (bool \<Rightarrow> string \<Rightarrow> string + 'v) \<Rightarrow> Client \<Rightarrow> Request \<Rightarrow> target \<Rightarrow> 'v do_result" where
  "Do L decode c req v =
     (case backoff_Retry (operation L c req) (retries_granted L (Do_backoff L)) 0
             \<lparr>resp = None, calls = 0, received = []\<rparr> of
        (retryErr, s) \<Rightarrow>
          (let deferred = (case resp s of None \<Rightarrow> [] | Some (i, r) \<Rightarrow> [i]);
               (e, x, w) =
                 (if retryErr \<noteq> None then (retryErr, None, None)
                  else (case resp s of
                      None \<Rightarrow> (Some NilDereference, None, None)
                    | Some (i, r) \<Rightarrow>
                        if StatusCode r \<ge> 400 then (Some (error_of_response L r), None, None)
                        else read_response decode c r v))
           in \<lparr>do_resp = map_option snd (resp s), do_err = e, do_value = x, do_written = w,
                round_trips = calls s, bodies_received = received s,
                bodies_closed = deferred\<rparr>))"

text \<open>\<^verbatim>\<open>Call\<close>: the error returned and the number of calls of the transport.\<close>

definition Call ::
  "lib \<Rightarrow> ('a \<Rightarrow> string + string) \<Rightarrow> (bool \<Rightarrow> string \<Rightarrow> string + 'v) \<Rightarrow> Client
     \<Rightarrow> string \<Rightarrow> string \<Rightarrow> 'a body \<Rightarrow> target \<Rightarrow> error option \<times> nat" where
  "Call L marshal decode c method path b v = (case NewRequest L marshal c method path b of
      Inl err \<Rightarrow> (Some err, 0)
    | Inr req \<Rightarrow> (let d = Do L decode c req v in (do_err d, round_trips d)))"

section \<open>IngestEvents and IngestChannel (datasets.go)\<close>

text \<open>
  Modelled from the spec: \<^verbatim>\<open>ingest.Status\<close> and \<^verbatim>\<open>ingest.Failure\<close> (package
  \<^verbatim>\<open>axiom/ingest\<close>, not part of the sources): the counts of ingested and failed
  events, the failures (timestamp and error message), the processed bytes, the blocks
  created and the length of the write-ahead log.
\<close>

record ingest_Failure =
  FailureTimestamp :: string
  FailureError :: string



text \<open>
  The compressor (package \<^verbatim>\<open>github.com/klauspost/compress/zstd\<close>) writing into the
  pipe: the error of \<^verbatim>\<open>zstd.NewWriter(pw)\<close>; the error of a write that brings the
  plain text handed to the compressor to the given content (the pipe's reader may be
  gone); and, once \<^verbatim>\<open>zsw.Close()\<close> has returned, its error and the bytes the pipe has
  received in all, both for the plain text written.
\<close>

record zstd =
  NewWriter :: "string option"
  Write_fails :: "string \<Rightarrow> string option"
  Close_err :: "string \<Rightarrow> string option"
  emitted :: "string \<Rightarrow> string"

text \<open>
  The loops \<^verbatim>\<open>for _, event := range events\<close> and \<^verbatim>\<open>for event := range events\<close>:
  the plain text written and \<^verbatim>\<open>encErr\<close>. For the channel, the list is what the channel
  delivers until it is closed.
\<close>

fun encode_range ::
  "('e \<Rightarrow> string + string) \<Rightarrow> zstd \<Rightarrow> 'e list \<Rightarrow> string \<Rightarrow> string \<times> error option" where
  "encode_range marshal Z [] written = (written, None)"
| "encode_range marshal Z (event # events) written =
     (case Encoder_Encode marshal (Write_fails Z) written event of
        Inl encErr \<Rightarrow> (written, Some encErr)
      | Inr written' \<Rightarrow> encode_range marshal Z events written')"

text \<open>
  What a goroutine leaves behind: the read end of the pipe (the bytes written and the
  error given to \<^verbatim>\<open>pw.CloseWithError\<close>, \<open>EOF\<close> for nil), and the order in which it
  closed the compressor and the pipe. The goroutine is followed to its last statement:
  every write to the pipe returns, with or without an error, as it does when the other
  end reads the pipe or closes it. (A write to a pipe that nobody reads does not
  return; a goroutine held there closes nothing.)
\<close>

datatype closing = CompressorClose | PipeCloseWithError "error option"

record goroutine =
  pr :: io_Reader
  closings :: "closing list"

definition pipe_end :: "error option \<Rightarrow> error" where
  "pipe_end e = (case e of None \<Rightarrow> EOF | Some err \<Rightarrow> err)"

definition IngestEvents_goroutine :: "('e \<Rightarrow> string + string) \<Rightarrow> zstd \<Rightarrow> 'e list \<Rightarrow> goroutine" where
  "IngestEvents_goroutine marshal Z events = (case NewWriter Z of
      Some wErr \<Rightarrow>
        \<lparr>pr = \<lparr>data = [], final = External wErr\<rparr>,
         closings = [PipeCloseWithError (Some (External wErr))]\<rparr>
    | None \<Rightarrow>
        (case encode_range marshal Z events [] of
           (written, encErr) \<Rightarrow>
             (let closeErr = map_option External (Close_err Z written);
                  encErr' = (if encErr = None then closeErr else encErr)
              in \<lparr>pr = \<lparr>data = emitted Z written, final = pipe_end encErr'\<rparr>,
                   closings = [CompressorClose, PipeCloseWithError encErr']\<rparr>)))"








section \<open>Notions used to state the properties\<close>

text \<open>
  The character tables are consistent when no white space character is a letter, a
  bracket, a brace or a double quote (as in Unicode).
\<close>

definition tables_consistent :: "unicode \<Rightarrow> bool" where
  "tables_consistent U = (\<forall>c. IsSpace U c \<longrightarrow>
      \<not> IsLetter U c \<and> c \<noteq> of_char CHR ''['' \<and> c \<noteq> of_char CHR ''{'' \<and> c \<noteq> of_char (CHR 0x22))"

text \<open>
  The loop of \<^verbatim>\<open>DetectContentType\<close> read off its branches: the runes it passes over,
  what it answers at the first rune it does not pass over, and what it answers when the
  stream ends first.
\<close>

definition skipped :: "unicode \<Rightarrow> rune \<Rightarrow> bool" where
  "skipped U c = (c \<noteq> of_char CHR ''['' \<and> c \<noteq> of_char CHR ''{'' \<and>
                  \<not> IsLetter U c \<and> c \<noteq> of_char (CHR 0x22) \<and> IsSpace U c)"

definition classify :: "unicode \<Rightarrow> rune \<Rightarrow> error + ContentType" where
  "classify U c =
     (if c = of_char CHR ''['' then Inr JSON
      else if c = of_char CHR ''{'' then Inr NDJSON
      else if IsLetter U c \<or> c = of_char (CHR 0x22) then Inr CSV
      else Inl (errorString ''cannot determine content type''))"

definition exhausted :: "error \<Rightarrow> error" where
  "exhausted e = (if e = EOF
     then errorString ''couldn't find beginning of supported ingestion format'' else e)"

text \<open>
  The language of a regular expression, to say what \<open>MatchString\<close> decides.
\<close>

definition cat_lang :: "string set \<Rightarrow> string set \<Rightarrow> string set" where
  "cat_lang A B = {u @ v | u v. u \<in> A \<and> v \<in> B}"

inductive_set star_lang :: "string set \<Rightarrow> string set" for A :: "string set" where
  star_nil: "[] \<in> star_lang A"
| star_app: "u \<in> A \<Longrightarrow> v \<in> star_lang A \<Longrightarrow> u @ v \<in> star_lang A"

primrec lang :: "regexp \<Rightarrow> string set" where
  "lang Nothing = {}"
| "lang Epsilon = {[]}"
| "lang (Atom a) = {[c] | c. accepts a c}"
| "lang (Alt r s) = lang r \<union> lang s"
| "lang (Cat r s) = cat_lang (lang r) (lang s)"
| "lang (Star r) = star_lang (lang r)"

text \<open>
  The paths \<^verbatim>\<open>validOnlyAPITokenPaths\<close> admits, in words: \<^verbatim>\<open>/api/v1/datasets/\<close>, then
  either a dataset id (not empty, no slash) and \<^verbatim>\<open>/ingest\<close> (dataset ingest) or
  \<^verbatim>\<open>/query\<close> (dataset query), or \<^verbatim>\<open>_apl\<close> (APL query); then nothing, or a question
  mark and at least one character, none of them a line feed.
\<close>

definition allow_listed :: "string \<Rightarrow> bool" where
  "allow_listed p \<longleftrightarrow>
     (\<exists>rest q. p = ''/api/v1/datasets/'' @ rest @ q \<and>
        (rest = ''_apl'' \<or>
         (\<exists>d. d \<noteq> [] \<and> CHR ''/'' \<notin> set d \<and> (rest = d @ ''/ingest'' \<or> rest = d @ ''/query''))) \<and>
        (q = [] \<or> (\<exists>t. t \<noteq> [] \<and> CHR 0x0A \<notin> set t \<and> q = CHR ''?'' # t)))"

text \<open>
  The allow-list as the specification words it: dataset ingest, dataset query, APL
  query, and ingest-token validation, whose path is \<^verbatim>\<open>/api/v1/tokens/ingest/validate\<close>
  in the repository's tests.
\<close>

definition spec_allow_list :: "string \<Rightarrow> bool" where
  "spec_allow_list p \<longleftrightarrow> allow_listed p \<or> p = ''/api/v1/tokens/ingest/validate''"

text \<open>
  An attempt is retryable when the transport failed or the status is 500 or more;
  \<open>attempt_error\<close> is the error the closure of \<^verbatim>\<open>Do\<close> returns for an attempt.
\<close>

definition retryable :: "attempt \<Rightarrow> bool" where
  "retryable a = (case a of TransportError msg \<Rightarrow> True | Reply h \<Rightarrow> StatusCode h \<ge> 500)"

definition attempt_error :: "attempt \<Rightarrow> error option" where
  "attempt_error a = (case a of
      TransportError msg \<Rightarrow> Some (External msg)
    | Reply h \<Rightarrow> if StatusCode h \<ge> 500 then Some (Errorf ''got status code %d'' (StatusCode h)) else None)"

definition is_reply :: "attempt \<Rightarrow> bool" where
  "is_reply a = (case a of TransportError msg \<Rightarrow> False | Reply h \<Rightarrow> True)"

text \<open>
  The state \<^verbatim>\<open>Do\<close> starts the retries from, and the invariant of the variable
  \<^verbatim>\<open>resp\<close>: it holds the response of the last call that returned one.
\<close>

definition s0 :: retry_state where
  "s0 = \<lparr>resp = None, calls = 0, received = []\<rparr>"

definition resp_is_last :: "lib \<Rightarrow> Client \<Rightarrow> Request \<Rightarrow> retry_state \<Rightarrow> bool" where
  "resp_is_last L c req s = (case resp s of
      None \<Rightarrow> received s = []
    | Some (j, r) \<Rightarrow> received s \<noteq> [] \<and> j = last (received s) \<and>
        (\<exists>h. httpClient c j req = Reply h \<and> r = newResponse L h))"

text \<open>
  "Newlines stripped", as the specification words the fallback message of an error:
  the text without its line feeds.
\<close>

definition strip_newlines :: "string \<Rightarrow> string" where
  "strip_newlines s = filter (\<lambda>b. b \<noteq> CHR 0x0A) s"





section \<open>Parameters for the examples\<close>

text \<open>
  Concrete parameters, for the examples that instantiate the theorems: a URL parser for
  absolute paths without escapes and a base URL without a path; tokens told apart by
  their prefix; a JSON decoder of error bodies that reads the whole body and finds no
  field (as for the body \<^verbatim>\<open>{}\<close>), but for the body \<^verbatim>\<open>null\<close>, which leaves the
  pointer nil; a backoff policy that grants five retries.
\<close>

definition url0 :: "string \<Rightarrow> string + URL" where
  "url0 p = (if p = [] then Inl ''empty url''
     else Inr \<lparr>Scheme = [], Host = [], Path = takeWhile (\<lambda>b. b \<noteq> CHR ''?'') p,
               RawQuery = drop 1 (dropWhile (\<lambda>b. b \<noteq> CHR ''?'') p)\<rparr>)"

definition lib0 :: lib where
  "lib0 = \<lparr>ParseRequestURI = url0,
     ResolveReference = (\<lambda>base rel. base\<lparr>Path := Path rel, RawQuery := RawQuery rel\<rparr>),
     URL_String = (\<lambda>u. Scheme u @ ''://'' @ Host u @ Path u @
                        (if RawQuery u = [] then [] else CHR ''?'' # RawQuery u)),
     NewRequestWithContext = (\<lambda>m u. None),
     StatusText = (\<lambda>n. if n = 400 then ''Bad Request'' else if n = 418 then ''I'm a teapot'' else []),
     IsAPIToken = prefix ''xaat-'',
     IsPersonalToken = prefix ''xapt-'',
     httpStatusLimitExceeded = 430,
     limitOf = (\<lambda>h. \<lparr>limit = 0, remaining = 0, reset = 0\<rparr>),
     NewExponentialBackOff = \<lparr>InitialInterval = 500 * Millisecond, RandomizationFactor = 0.5,
        Multiplier = 1.5, MaxInterval = 60 * Second, MaxElapsedTime = 900 * Second\<rparr>,
     retries_granted = (\<lambda>b. 5),
     decodeError = (\<lambda>b e. (length b, if b = ''null'' then Inr None else Inr (Some e)))\<rparr>"

definition client0 :: "(nat \<Rightarrow> Request \<Rightarrow> attempt) \<Rightarrow> string \<Rightarrow> Client" where
  "client0 t token = \<lparr>config = \<lparr>BaseURL = \<lparr>Scheme = ''http'', Host = ''axiom.local'', Path = [], RawQuery = []\<rparr>,
                               AccessToken = token, OrganizationID = []\<rparr>,
                     httpClient = t, userAgent = ''axiom-go'', strictDecoding = False\<rparr>"

definition req0 :: Request where
  "req0 = \<lparr>Method = ''GET'', Target = ''http://axiom.local/'', Header = Map.empty, Body = None\<rparr>"

definition no_json :: "unit \<Rightarrow> string + string" where
  "no_json u = Inr ''null''"

definition no_decode :: "bool \<Rightarrow> string \<Rightarrow> string + unit" where
  "no_decode strict b = Inr ()"

text \<open>
  Transports: what the server answers to the successive calls.
\<close>

definition ok200 :: "nat \<Rightarrow> Request \<Rightarrow> attempt" where
  "ok200 i req = Reply \<lparr>StatusCode = 200, RespHeader = Map.empty, RespBody = []\<rparr>"

definition flaky :: "nat \<Rightarrow> Request \<Rightarrow> attempt" where
  "flaky i req =
     (if i = 0 then TransportError ''connection refused''
      else if i = 1 then Reply \<lparr>StatusCode = 503, RespHeader = Map.empty, RespBody = []\<rparr>
      else Reply \<lparr>StatusCode = 200, RespHeader = Map.empty, RespBody = []\<rparr>)"

definition down :: "nat \<Rightarrow> Request \<Rightarrow> attempt" where
  "down i req =
     (if i = 0 then Reply \<lparr>StatusCode = 500, RespHeader = Map.empty, RespBody = []\<rparr>
      else if i = 1 then Reply \<lparr>StatusCode = 503, RespHeader = Map.empty, RespBody = []\<rparr>
      else TransportError ''connection reset'')"

definition status_only :: "int \<Rightarrow> nat \<Rightarrow> Request \<Rightarrow> attempt" where
  "status_only code i req = Reply \<lparr>StatusCode = code, RespHeader = Map.empty, RespBody = []\<rparr>"

definition json_error_body :: "string \<Rightarrow> nat \<Rightarrow> Request \<Rightarrow> attempt" where
  "json_error_body b i req =
     Reply \<lparr>StatusCode = 400, RespHeader = [''Content-Type'' \<mapsto> ''application/json''], RespBody = b\<rparr>"

definition retried_then_ok :: "nat \<Rightarrow> Request \<Rightarrow> attempt" where
  "retried_then_ok i req =
     (if i = 0 then Reply \<lparr>StatusCode = 500, RespHeader = Map.empty, RespBody = ''busy''\<rparr>
      else Reply \<lparr>StatusCode = 200, RespHeader = Map.empty, RespBody = []\<rparr>)"


text \<open>
  Events that are JSON texts already (\<^verbatim>\<open>bad\<close> stands for a value
  \<^verbatim>\<open>json.Marshal\<close> refuses), a compressor that stores (its output is its input),
  one whose \<^verbatim>\<open>Close\<close> fails, one whose writes fail once more than two bytes have
  been written (the pipe has been closed by then), and one that cannot be created.
\<close>

definition json_text :: "string \<Rightarrow> string + string" where
  "json_text e = (if e = ''bad'' then Inl ''json: unsupported value'' else Inr e)"

definition z0 :: zstd where
  "z0 = \<lparr>NewWriter = None, Write_fails = (\<lambda>w. None), Close_err = (\<lambda>w. None), emitted = (\<lambda>w. w)\<rparr>"






section \<open>DetectContentType: what the loop computes\<close>

lemma detect_loop_unfold:
  "detect_loop U \<lparr>unread = rs, rd_err = e, lastRune = l\<rparr> =
     (case dropWhile (\<lambda>x. skipped U (fst x)) rs of
        [] \<Rightarrow> Inl (exhausted e)
      | x # xs \<Rightarrow>
          (case classify U (fst x) of
             Inl err \<Rightarrow> Inl err
           | Inr typ \<Rightarrow> Inr (typ, \<lparr>unread = x # xs, rd_err = e, lastRune = None\<rparr>)))"
proof (induction rs arbitrary: l)
  case Nil
  show ?case
    by (simp add: ReadRune_def exhausted_def)
next
  case (Cons x xs)
  show ?case
  proof (cases "skipped U (fst x)")
    case True
    then have "detect_loop U \<lparr>unread = x # xs, rd_err = e, lastRune = l\<rparr> =
               detect_loop U \<lparr>unread = xs, rd_err = e, lastRune = Some x\<rparr>"
      by (simp add: ReadRune_def skipped_def)
    with True Cons.IH [of "Some x"] show ?thesis
      by simp
  next
    case False
    then show ?thesis
      by (auto simp: ReadRune_def skipped_def classify_def unread_and_break_def UnreadRune_def)
  qed
qed

lemma DetectContentType_unfold:
  "DetectContentType U r =
     (case dropWhile (\<lambda>x. skipped U (fst x)) (DecodeRunes U (data r)) of
        [] \<Rightarrow> Inl (exhausted (final r))
      | x # xs \<Rightarrow>
          (case classify U (fst x) of
             Inl err \<Rightarrow> Inl err
           | Inr typ \<Rightarrow> Inr (\<lparr>data = concat (map snd (x # xs)), final = final r\<rparr>, typ)))"
proof -
  define d where "d = dropWhile (\<lambda>x. skipped U (fst x)) (DecodeRunes U (data r))"
  have "DetectContentType U r =
        (case (case d of
                 [] \<Rightarrow> Inl (exhausted (final r))
               | x # xs \<Rightarrow>
                   (case classify U (fst x) of
                      Inl err \<Rightarrow> Inl err
                    | Inr typ \<Rightarrow> Inr (typ, \<lparr>unread = x # xs, rd_err = final r, lastRune = None\<rparr>))) of
           Inl err \<Rightarrow> Inl err
         | Inr (typ, br) \<Rightarrow> Inr (Peek_Buffered_then_rest br, typ))"
    unfolding DetectContentType_def bufio_NewReader_def detect_loop_unfold d_def ..
  also have "\<dots> = (case d of
        [] \<Rightarrow> Inl (exhausted (final r))
      | x # xs \<Rightarrow>
          (case classify U (fst x) of
             Inl err \<Rightarrow> Inl err
           | Inr typ \<Rightarrow> Inr (\<lparr>data = concat (map snd (x # xs)), final = final r\<rparr>, typ)))"
    by (simp add: Peek_Buffered_then_rest_def split: list.split sum.split)
  finally show ?thesis
    unfolding d_def .
qed

lemma ascii_consistent: "tables_consistent ascii"
  by (simp add: tables_consistent_def ascii_def)

section \<open>The regular expression: derivatives decide the language\<close>

lemma nullable_lang: "nullable r \<longleftrightarrow> [] \<in> lang r"
  by (induction r) (auto simp: cat_lang_def intro: star_lang.star_nil)

lemma cons_in_cat:
  "c # w \<in> cat_lang A B \<longleftrightarrow>
     (\<exists>u v. w = u @ v \<and> c # u \<in> A \<and> v \<in> B) \<or> ([] \<in> A \<and> c # w \<in> B)"
  unfolding cat_lang_def
  by (auto simp: Cons_eq_append_conv)

lemma cons_in_star_split:
  assumes "x \<in> star_lang A" and "x = c # w"
  shows "\<exists>u v. w = u @ v \<and> c # u \<in> A \<and> v \<in> star_lang A"
  using assms
proof (induction arbitrary: w rule: star_lang.induct)
  case star_nil
  then show ?case by simp
next
  case (star_app u v)
  show ?case
  proof (cases u)
    case Nil
    with star_app show ?thesis by simp
  next
    case (Cons a u')
    with star_app.prems have "a = c" and "w = u' @ v" by simp_all
    with Cons star_app.hyps show ?thesis by blast
  qed
qed

lemma cons_in_star:
  "c # w \<in> star_lang A \<longleftrightarrow> (\<exists>u v. w = u @ v \<and> c # u \<in> A \<and> v \<in> star_lang A)"
proof
  assume "c # w \<in> star_lang A"
  then show "\<exists>u v. w = u @ v \<and> c # u \<in> A \<and> v \<in> star_lang A"
    by (rule cons_in_star_split) simp
next
  assume "\<exists>u v. w = u @ v \<and> c # u \<in> A \<and> v \<in> star_lang A"
  then obtain u v where "w = u @ v" "c # u \<in> A" "v \<in> star_lang A" by blast
  then show "c # w \<in> star_lang A"
    using star_lang.star_app [of "c # u" A v] by simp
qed

lemma lang_deriv: "w \<in> lang (deriv c r) \<longleftrightarrow> c # w \<in> lang r"
proof (induction r arbitrary: w)
  case (Cat r s)
  have left: "w \<in> cat_lang (lang (deriv c r)) (lang s) \<longleftrightarrow>
              (\<exists>u v. w = u @ v \<and> c # u \<in> lang r \<and> v \<in> lang s)"
    using Cat.IH(1) by (auto simp: cat_lang_def)
  show ?case
    using Cat.IH(2) by (auto simp: left cons_in_cat nullable_lang)
next
  case (Star r)
  have "w \<in> cat_lang (lang (deriv c r)) (star_lang (lang r)) \<longleftrightarrow>
        (\<exists>u v. w = u @ v \<and> c # u \<in> lang r \<and> v \<in> star_lang (lang r))"
    using Star.IH by (auto simp: cat_lang_def)
  then show ?case
    by (simp add: cons_in_star)
qed auto

lemma MatchString_lang: "MatchString r w \<longleftrightarrow> w \<in> lang r"
  by (induction w arbitrary: r) (simp_all add: nullable_lang lang_deriv)

lemma lang_Lit: "lang (Lit w) = {w}"
  by (induction w) (auto simp: cat_lang_def)

lemma star_atoms: "w \<in> star_lang {[c] | c. P c} \<longleftrightarrow> (\<forall>c \<in> set w. P c)"
proof
  assume "w \<in> star_lang {[c] | c. P c}"
  then show "\<forall>c \<in> set w. P c"
    by (induction rule: star_lang.induct) auto
next
  assume "\<forall>c \<in> set w. P c"
  then show "w \<in> star_lang {[c] | c. P c}"
  proof (induction w)
    case Nil
    show ?case by (rule star_lang.star_nil)
  next
    case (Cons a w)
    then have "[a] \<in> {[c] | c. P c}" and "w \<in> star_lang {[c] | c. P c}" by auto
    then have "[a] @ w \<in> star_lang {[c] | c. P c}" by (rule star_lang.star_app)
    then show ?case by simp
  qed
qed

lemma lang_OneOrMore_Atom:
  "w \<in> lang (OneOrMore (Atom a)) \<longleftrightarrow> w \<noteq> [] \<and> (\<forall>c \<in> set w. accepts a c)"
proof (cases w)
  case Nil
  then show ?thesis
    by (simp add: OneOrMore_def cat_lang_def)
next
  case (Cons b bs)
  have "b # bs \<in> cat_lang {[c] | c. accepts a c} (star_lang {[c] | c. accepts a c}) \<longleftrightarrow>
        accepts a b \<and> (\<forall>c \<in> set bs. accepts a c)"
  proof
    assume "b # bs \<in> cat_lang {[c] | c. accepts a c} (star_lang {[c] | c. accepts a c})"
    then show "accepts a b \<and> (\<forall>c \<in> set bs. accepts a c)"
      by (auto simp: cat_lang_def star_atoms)
  next
    assume "accepts a b \<and> (\<forall>c \<in> set bs. accepts a c)"
    then have "[b] \<in> {[c] | c. accepts a c}" and "bs \<in> star_lang {[c] | c. accepts a c}"
      by (auto simp: star_atoms)
    then have "[b] @ bs \<in> cat_lang {[c] | c. accepts a c} (star_lang {[c] | c. accepts a c})"
      unfolding cat_lang_def by blast
    then show "b # bs \<in> cat_lang {[c] | c. accepts a c} (star_lang {[c] | c. accepts a c})"
      by simp
  qed
  with Cons show ?thesis
    by (simp add: OneOrMore_def)
qed

lemma in_cat: "w \<in> cat_lang A B \<longleftrightarrow> (\<exists>u v. w = u @ v \<and> u \<in> A \<and> v \<in> B)"
  by (auto simp: cat_lang_def)

lemma lang_dataset_part:
  "w \<in> lang (Alt (Cat (OneOrMore (Atom (NotByte CHR ''/'')))
                      (Cat (Lit ''/'') (Alt (Lit ''ingest'') (Lit ''query''))))
                 (Lit ''_apl'')) \<longleftrightarrow>
   (w = ''_apl'' \<or>
    (\<exists>d. d \<noteq> [] \<and> CHR ''/'' \<notin> set d \<and> (w = d @ ''/ingest'' \<or> w = d @ ''/query'')))"
  unfolding lang.simps Un_iff in_cat lang_OneOrMore_Atom lang_Lit
  by auto

lemma lang_query_part:
  "w \<in> lang (ZeroOrOne (Cat (Lit ''?'') (OneOrMore (Atom AnyByte)))) \<longleftrightarrow>
   (w = [] \<or> (\<exists>t. t \<noteq> [] \<and> CHR 0x0A \<notin> set t \<and> w = CHR ''?'' # t))"
  unfolding ZeroOrOne_def lang.simps Un_iff in_cat lang_OneOrMore_Atom lang_Lit
  by auto

lemma MatchString_allow_listed:
  "MatchString validOnlyAPITokenPaths p \<longleftrightarrow> allow_listed p"
  unfolding MatchString_lang validOnlyAPITokenPaths_def allow_listed_def
  unfolding lang.simps(5) in_cat lang_dataset_part lang_query_part lang_Lit
  by auto

section \<open>NewRequest: its errors\<close>

lemma body_reader_External:
  "body_reader marshal b = Inl e \<Longrightarrow> \<exists>msg. e = External msg"
  by (auto simp: body_reader_def Encoder_Encode_def split: body.splits sum.splits)

lemma NewRequest_unprivileged:
  "NewRequest L marshal c method path b = Inl ErrUnprivilegedToken \<longleftrightarrow>
      (\<exists>rel. ParseRequestURI L path = Inr rel \<and> IsAPIToken L (AccessToken (config c)) \<and>
             \<not> allow_listed (Path (ResolveReference L (BaseURL (config c)) rel)))"
  by (auto simp: NewRequest_def Let_def MatchString_allow_listed
      split: sum.splits option.splits prod.splits dest: body_reader_External)


section \<open>Do: the run of the retries\<close>

lemma operation_err: "fst (operation L c req i s) = attempt_error (httpClient c i req)"
  by (simp add: operation_def attempt_error_def Let_def split: attempt.splits)

lemma operation_calls: "calls (snd (operation L c req i s)) = Suc (calls s)"
  by (simp add: operation_def Let_def split: attempt.splits)

lemma operation_received:
  "received (snd (operation L c req i s)) =
     received s @ filter (\<lambda>j. is_reply (httpClient c j req)) [i]"
  by (simp add: operation_def Let_def is_reply_def split: attempt.splits)

lemma operation_resp_is_last:
  "resp_is_last L c req s \<Longrightarrow> resp_is_last L c req (snd (operation L c req i s))"
  by (auto simp: operation_def Let_def resp_is_last_def split: attempt.splits option.splits)

lemma attempt_error_None: "attempt_error a = None \<longleftrightarrow> \<not> retryable a"
  by (simp add: attempt_error_def retryable_def split: attempt.splits)

lemma Retry_run:
  "\<exists>k \<le> g.
     calls (snd (backoff_Retry (operation L c req) g i s)) = calls s + Suc k \<and>
     (\<forall>j < k. retryable (httpClient c (i + j) req)) \<and>
     fst (backoff_Retry (operation L c req) g i s) = attempt_error (httpClient c (i + k) req) \<and>
     (retryable (httpClient c (i + k) req) \<longrightarrow> k = g) \<and>
     received (snd (backoff_Retry (operation L c req) g i s)) =
       received s @ filter (\<lambda>j. is_reply (httpClient c j req)) [i ..< i + Suc k]"
proof (induction g arbitrary: i s)
  case 0
  show ?case
    by (simp add: operation_err operation_calls operation_received)
next
  case (Suc g)
  obtain e s1 where op: "operation L c req i s = (e, s1)"
    by (cases "operation L c req i s")
  have e: "e = attempt_error (httpClient c i req)"
    using operation_err [of L c req i s] op by simp
  have c1: "calls s1 = Suc (calls s)"
    using operation_calls [of L c req i s] op by simp
  have r1: "received s1 = received s @ filter (\<lambda>j. is_reply (httpClient c j req)) [i]"
    using operation_received [of L c req i s] op by simp
  show ?case
  proof (cases e)
    case None
    then have "\<not> retryable (httpClient c i req)"
      using e by (simp add: attempt_error_None)
    with None op e c1 r1 show ?thesis
      by (intro exI [of _ 0]) simp
  next
    case (Some err)
    then have ret: "retryable (httpClient c i req)"
      using e attempt_error_None [of "httpClient c i req"] by auto
    from Suc.IH [of "Suc i" s1] obtain k where k: "k \<le> g"
      "calls (snd (backoff_Retry (operation L c req) g (Suc i) s1)) = calls s1 + Suc k"
      "\<forall>j < k. retryable (httpClient c (Suc i + j) req)"
      "fst (backoff_Retry (operation L c req) g (Suc i) s1) = attempt_error (httpClient c (Suc i + k) req)"
      "retryable (httpClient c (Suc i + k) req) \<longrightarrow> k = g"
      "received (snd (backoff_Retry (operation L c req) g (Suc i) s1)) =
         received s1 @ filter (\<lambda>j. is_reply (httpClient c j req)) [Suc i ..< Suc i + Suc k]"
      by blast
    have run: "backoff_Retry (operation L c req) (Suc g) i s =
               backoff_Retry (operation L c req) g (Suc i) s1"
      using op Some by simp
    have pre: "\<forall>j < Suc k. retryable (httpClient c (i + j) req)"
    proof (intro allI impI)
      fix j assume "j < Suc k"
      show "retryable (httpClient c (i + j) req)"
      proof (cases j)
        case 0
        with ret show ?thesis by simp
      next
        case (Suc j')
        with \<open>j < Suc k\<close> k(3) show ?thesis by simp
      qed
    qed
    have rec: "received s1 @ filter (\<lambda>j. is_reply (httpClient c j req)) [Suc i ..< Suc i + Suc k] =
               received s @ filter (\<lambda>j. is_reply (httpClient c j req)) [i ..< i + Suc (Suc k)]"
    proof -
      have "[i ..< i + Suc (Suc k)] = i # [Suc i ..< Suc i + Suc k]"
        by (subst upt_rec) simp
      then show ?thesis
        by (simp add: r1)
    qed
    show ?thesis
      unfolding run
      using k pre rec c1 by (intro exI [of _ "Suc k"]) simp
  qed
qed

lemma Retry_resp_is_last:
  "resp_is_last L c req s \<Longrightarrow>
   resp_is_last L c req (snd (backoff_Retry (operation L c req) g i s))"
proof (induction g arbitrary: i s)
  case 0
  then show ?case by (simp add: operation_resp_is_last)
next
  case (Suc g)
  obtain e s1 where op: "operation L c req i s = (e, s1)"
    by (cases "operation L c req i s")
  have "resp_is_last L c req s1"
    using operation_resp_is_last [OF Suc.prems, of i] op by simp
  with Suc.IH [of s1 "Suc i"] op show ?case
    by (cases e) simp_all
qed

lemma Do_fields:
  "round_trips (Do L decode c req v) =
     calls (snd (backoff_Retry (operation L c req) (retries_granted L (Do_backoff L)) 0 s0))"
  "bodies_received (Do L decode c req v) =
     received (snd (backoff_Retry (operation L c req) (retries_granted L (Do_backoff L)) 0 s0))"
  "do_resp (Do L decode c req v) =
     map_option snd (resp (snd (backoff_Retry (operation L c req) (retries_granted L (Do_backoff L)) 0 s0)))"
  "bodies_closed (Do L decode c req v) =
     (case resp (snd (backoff_Retry (operation L c req) (retries_granted L (Do_backoff L)) 0 s0)) of
        None \<Rightarrow> [] | Some (i, r) \<Rightarrow> [i])"
  by (simp_all add: Do_def s0_def Let_def split: prod.splits)

lemma Do_err:
  "do_err (Do L decode c req v) =
     (case backoff_Retry (operation L c req) (retries_granted L (Do_backoff L)) 0 s0 of
        (retryErr, s) \<Rightarrow>
          if retryErr \<noteq> None then retryErr
          else (case resp s of
              None \<Rightarrow> Some NilDereference
            | Some (i, r) \<Rightarrow>
                if StatusCode r \<ge> 400 then Some (error_of_response L r)
                else fst (read_response decode c r v)))"
  by (auto simp: Do_def s0_def Let_def split: prod.splits option.splits)

lemma s0_resp_is_last: "resp_is_last L c req s0"
  by (simp add: resp_is_last_def s0_def)

lemma last_filter_upt: "P k \<Longrightarrow> last (filter P [0 ..< Suc k]) = k"
  by simp

lemma Do_run:
  obtains k where
    "k \<le> retries_granted L (Do_backoff L)"
    "round_trips (Do L decode c req v) = Suc k"
    "\<forall>j < k. retryable (httpClient c j req)"
    "fst (backoff_Retry (operation L c req) (retries_granted L (Do_backoff L)) 0 s0) =
       attempt_error (httpClient c k req)"
    "retryable (httpClient c k req) \<longrightarrow> k = retries_granted L (Do_backoff L)"
    "bodies_received (Do L decode c req v) =
       filter (\<lambda>j. is_reply (httpClient c j req)) [0 ..< Suc k]"
proof -
  from Retry_run [of "retries_granted L (Do_backoff L)" L c req 0 s0]
  obtain k where "k \<le> retries_granted L (Do_backoff L)"
    "calls (snd (backoff_Retry (operation L c req) (retries_granted L (Do_backoff L)) 0 s0)) = calls s0 + Suc k"
    "\<forall>j < k. retryable (httpClient c (0 + j) req)"
    "fst (backoff_Retry (operation L c req) (retries_granted L (Do_backoff L)) 0 s0) =
       attempt_error (httpClient c (0 + k) req)"
    "retryable (httpClient c (0 + k) req) \<longrightarrow> k = retries_granted L (Do_backoff L)"
    "received (snd (backoff_Retry (operation L c req) (retries_granted L (Do_backoff L)) 0 s0)) =
       received s0 @ filter (\<lambda>j. is_reply (httpClient c j req)) [0 ..< 0 + Suc k]"
    by blast
  then show thesis
    using that [of k] by (simp add: Do_fields s0_def)
qed

lemma Do_round_trips_pos: "Suc 0 \<le> round_trips (Do L decode c req v)"
  by (rule Do_run [of L decode c req v]) simp

lemma Do_resp_last:
  "(bodies_received (Do L decode c req v) = [] \<longrightarrow> do_resp (Do L decode c req v) = None) \<and>
   (bodies_received (Do L decode c req v) \<noteq> [] \<longrightarrow>
      (\<exists>h. httpClient c (last (bodies_received (Do L decode c req v))) req = Reply h \<and>
           do_resp (Do L decode c req v) = Some (newResponse L h)))"
  using Retry_resp_is_last [OF s0_resp_is_last, of L c req "retries_granted L (Do_backoff L)" 0]
  by (auto simp: Do_fields resp_is_last_def split: option.splits)

lemma Do_final_reply:
  assumes "httpClient c (round_trips (Do L decode c req v) - 1) req = Reply h"
    and "StatusCode h < 500"
  shows "do_resp (Do L decode c req v) = Some (newResponse L h)"
    and "do_err (Do L decode c req v) =
       (if StatusCode h \<ge> 400 then Some (error_of_response L (newResponse L h))
        else fst (read_response decode c (newResponse L h) v))"
    and "bodies_closed (Do L decode c req v) = [round_trips (Do L decode c req v) - 1]"
proof -
  define R where "R = backoff_Retry (operation L c req) (retries_granted L (Do_backoff L)) 0 s0"
  obtain k where k: "round_trips (Do L decode c req v) = Suc k"
    "fst R = attempt_error (httpClient c k req)"
    "bodies_received (Do L decode c req v) = filter (\<lambda>j. is_reply (httpClient c j req)) [0 ..< Suc k]"
    unfolding R_def by (rule Do_run [of L decode c req v]) blast
  have hk: "httpClient c k req = Reply h"
    using assms(1) k(1) by simp
  have e: "fst R = None"
    using k(2) hk assms(2) by (simp add: attempt_error_def)
  have "received (snd R) = filter (\<lambda>j. is_reply (httpClient c j req)) [0 ..< k] @ [k]"
    using k(3) hk by (simp add: Do_fields R_def is_reply_def)
  then have rec: "received (snd R) \<noteq> []" "last (received (snd R)) = k"
    by simp_all
  have "resp_is_last L c req (snd R)"
    unfolding R_def by (rule Retry_resp_is_last [OF s0_resp_is_last])
  with rec hk have r: "resp (snd R) = Some (k, newResponse L h)"
    by (auto simp: resp_is_last_def split: option.splits)
  show "do_resp (Do L decode c req v) = Some (newResponse L h)"
    using r by (simp add: Do_fields R_def [symmetric])
  show "do_err (Do L decode c req v) =
       (if StatusCode h \<ge> 400 then Some (error_of_response L (newResponse L h))
        else fst (read_response decode c (newResponse L h) v))"
    using r e unfolding Do_err R_def [symmetric]
    by (cases R) (simp add: newResponse_def)
  show "bodies_closed (Do L decode c req v) = [round_trips (Do L decode c req v) - 1]"
    using r k(1) by (simp add: Do_fields R_def [symmetric])
qed



lemma Do_once:
  assumes "t 0 req = Reply h" and "StatusCode h < 500"
  shows "round_trips (Do L decode (client0 t token) req v) = 1"
  using assms
  by (cases "retries_granted L (Do_backoff L)")
     (simp_all add: Do_fields s0_def operation_def client0_def Let_def)

lemma Do_flaky:
  "round_trips (Do lib0 no_decode (client0 flaky ''xapt-test'') req0 NoTarget) = 3"
  by (simp add: Do_def operation_def lib0_def client0_def flaky_def newResponse_def
      read_response_def eval_nat_numeral Let_def)

lemma Do_down:
  "round_trips (Do lib0 no_decode (client0 down ''xapt-test'') req0 NoTarget) = 6"
  by (simp add: Do_def operation_def lib0_def client0_def down_def newResponse_def
      read_response_def eval_nat_numeral Let_def)

section \<open>The encoder: the loop over the events\<close>

lemma encode_range_all:
  assumes "map marshal events = map Inr jsons" and "\<forall>w. Write_fails Z w = None"
  shows "encode_range marshal Z events written =
         (written @ concat (map (\<lambda>js. js @ [CHR 0x0A]) jsons), None)"
  using assms(1)
proof (induction events arbitrary: jsons written)
  case Nil
  then show ?case by simp
next
  case (Cons e es)
  then obtain js rest where j: "jsons = js # rest" "marshal e = Inr js" "map marshal es = map Inr rest"
    by (cases jsons) auto
  have "Encoder_Encode marshal (Write_fails Z) written e = Inr (written @ js @ [CHR 0x0A])"
    using j(2) assms(2) by (simp add: Encoder_Encode_def)
  then show ?case
    using Cons.IH [OF j(3), of "written @ js @ [CHR 0x0A]"] j(1) by simp
qed





section \<open>IngestChannel: the request it sends\<close>



section \<open>The claims\<close>

text \<open>
  Claim C1. When \<^verbatim>\<open>json.Marshal\<close> succeeds for every event of the slice (and the
  compressor and the pipe do not fail), decompressing what the goroutine of
  \<^verbatim>\<open>IngestEvents\<close> wrote to the pipe gives newline-delimited JSON: the JSON text of
  each event followed by a line feed, one per event, in the order of the slice; and the
  pipe ends with \<open>EOF\<close>. The decompressor is any function that undoes the compressor.
\<close>

theorem C1_encoder_output:
  assumes "map marshal events = map Inr jsons"
    and "NewWriter Z = None" and "\<forall>w. Write_fails Z w = None" and "\<forall>w. Close_err Z w = None"
    and "\<forall>w. decompress (emitted Z w) = w"
  shows "length jsons = length events \<and>
         final (pr (IngestEvents_goroutine marshal Z events)) = EOF \<and>
         decompress (data (pr (IngestEvents_goroutine marshal Z events))) =
           concat (map (\<lambda>js. js @ [CHR 0x0A]) jsons)"
proof -
  have "length jsons = length events"
    using assms(1) by (metis length_map)
  then show ?thesis
    using assms(2-5)
    by (simp add: IngestEvents_goroutine_def encode_range_all [OF assms(1) assms(3)] pipe_end_def)
qed

text \<open>
  Claim C1, an instance: two events through the storing compressor.
\<close>

theorem C1_encoder_output_witness:
  \<open>data (pr (IngestEvents_goroutine json_text z0 [''{"a":1}'', ''{"b":2}''])) =
     ''{"a":1}'' @ [CHR 0x0A] @ ''{"b":2}'' @ [CHR 0x0A] \<and>
   final (pr (IngestEvents_goroutine json_text z0 [''{"a":1}'', ''{"b":2}''])) = EOF\<close>
proof -
  have m: \<open>map json_text [''{"a":1}'', ''{"b":2}''] = map Inr [''{"a":1}'', ''{"b":2}'']\<close>
    by (simp add: json_text_def)
  show ?thesis
    using C1_encoder_output [OF m, of z0 "\<lambda>w. w"] by (simp add: z0_def)
qed




text \<open>
  Claim C3 says that reading the returned reader to its end gives the original bytes,
  the skipped white space included. The code returns the unread part of the buffer
  followed by the rest of the stream, and the white space it skipped is in neither:
  for the input \<^verbatim>\<open> {"a":"b"}\<close> (a space, then an object) the returned reader holds
  \<^verbatim>\<open>{"a":"b"}\<close> only.
\<close>

theorem C3_leading_whitespace_is_lost:
  \<open>DetectContentType ascii (strings_NewReader '' {"a":"b"}'') =
     Inr (strings_NewReader ''{"a":"b"}'', NDJSON) \<and>
   ReadAll (strings_NewReader ''{"a":"b"}'') \<noteq> Inr '' {"a":"b"}''\<close>
  by (simp add: DetectContentType_unfold strings_NewReader_def ascii_def skipped_def
      classify_def ReadAll_def)

text \<open>
  Claim C4, as amended. \<^verbatim>\<open>NewRequest\<close> fails with \<^verbatim>\<open>ErrUnprivilegedToken\<close> exactly
  when the path parses, the token is an API token and the path of the resolved URL is
  outside the allow-list of dataset ingest, dataset query and APL query (ingest-token
  validation is not in the list). Then \<^verbatim>\<open>Call\<close> returns that error without a call of
  the transport, while a request that \<^verbatim>\<open>NewRequest\<close> builds reaches the transport.
  \<^verbatim>\<open>/api/v1/datasets\<close> is outside the list, \<^verbatim>\<open>/api/v1/datasets/test/ingest\<close> inside.
\<close>

theorem C4_api_token_gate:
  "(NewRequest L marshal c method path b = Inl ErrUnprivilegedToken \<longleftrightarrow>
      (\<exists>rel. ParseRequestURI L path = Inr rel \<and> IsAPIToken L (AccessToken (config c)) \<and>
             \<not> allow_listed (Path (ResolveReference L (BaseURL (config c)) rel)))) \<and>
   (NewRequest L marshal c method path b = Inl ErrUnprivilegedToken \<longrightarrow>
      Call L marshal decode c method path b v = (Some ErrUnprivilegedToken, 0)) \<and>
   (\<forall>req. NewRequest L marshal c method path b = Inr req \<longrightarrow>
      1 \<le> snd (Call L marshal decode c method path b v)) \<and>
   \<not> allow_listed ''/api/v1/datasets'' \<and>
   allow_listed ''/api/v1/datasets/test/ingest''"
proof -
  have "\<not> allow_listed ''/api/v1/datasets''"
    unfolding MatchString_allow_listed [symmetric]
    by (simp add: validOnlyAPITokenPaths_def OneOrMore_def ZeroOrOne_def)
  moreover have "allow_listed ''/api/v1/datasets/test/ingest''"
    unfolding MatchString_allow_listed [symmetric]
    by (simp add: validOnlyAPITokenPaths_def OneOrMore_def ZeroOrOne_def)
  ultimately show ?thesis
    using NewRequest_unprivileged [of L marshal c _ path b]
    by (auto simp: Call_def Let_def Do_round_trips_pos)
qed

text \<open>
  Claim C4, an instance: an API token on \<^verbatim>\<open>/api/v1/datasets\<close> and on
  \<^verbatim>\<open>/api/v1/datasets/test/ingest\<close>.
\<close>

theorem C4_api_token_gate_witness:
  "NewRequest lib0 no_json (client0 ok200 ''xaat-test'') ''GET'' ''/api/v1/datasets'' nil =
     Inl ErrUnprivilegedToken \<and>
   Call lib0 no_json no_decode (client0 ok200 ''xaat-test'') ''GET'' ''/api/v1/datasets'' nil NoTarget =
     (Some ErrUnprivilegedToken, 0) \<and>
   1 \<le> snd (Call lib0 no_json no_decode (client0 ok200 ''xaat-test'') ''POST''
               ''/api/v1/datasets/test/ingest'' nil NoTarget)"
proof -
  note g = C4_api_token_gate [of lib0 no_json "client0 ok200 ''xaat-test''" _ _ nil no_decode NoTarget]
  have rejected: "NewRequest lib0 no_json (client0 ok200 ''xaat-test'') ''GET'' ''/api/v1/datasets'' nil =
     Inl ErrUnprivilegedToken"
    using g [of "''GET''" "''/api/v1/datasets''"]
    by (simp add: lib0_def client0_def url0_def)
  obtain req where "NewRequest lib0 no_json (client0 ok200 ''xaat-test'') ''POST''
      ''/api/v1/datasets/test/ingest'' nil = Inr req"
    by (simp add: NewRequest_def lib0_def client0_def url0_def body_reader_def
        validOnlyAPITokenPaths_def OneOrMore_def ZeroOrOne_def)
  then have "1 \<le> snd (Call lib0 no_json no_decode (client0 ok200 ''xaat-test'') ''POST''
               ''/api/v1/datasets/test/ingest'' nil NoTarget)"
    using g [of "''POST''" "''/api/v1/datasets/test/ingest''"] by blast
  with rejected g [of "''GET''" "''/api/v1/datasets''"] show ?thesis
    by blast
qed

text \<open>
  Claim C4 as stated fails on the path of ingest-token validation: it is in the
  allow-list the claim names, and \<^verbatim>\<open>NewRequest\<close> rejects it for an API token.
\<close>

theorem C4_ingest_token_validation_rejected:
  "spec_allow_list ''/api/v1/tokens/ingest/validate'' \<and>
   NewRequest lib0 no_json (client0 ok200 ''xaat-test'') ''GET'' ''/api/v1/tokens/ingest/validate'' nil =
     Inl ErrUnprivilegedToken"
  by (simp add: spec_allow_list_def NewRequest_def lib0_def client0_def url0_def
      validOnlyAPITokenPaths_def OneOrMore_def ZeroOrOne_def)

text \<open>
  Claim C5. \<^verbatim>\<open>Do\<close> hands \<^verbatim>\<open>backoff.Retry\<close> a policy with initial interval 200 ms,
  multiplier 2 and a maximal elapsed time of 10 s. Every call of the transport that was
  followed by another one had failed in the transport or returned a status of 500 or
  more, and a call with such an outcome is followed by another one unless the policy
  grants no further retry. When the retries are used up, \<^verbatim>\<open>Do\<close> returns the error of
  the last call; the response it returns is always the last one received.
\<close>

theorem C5_Do_retries:
  assumes "d = Do L decode c req v" and "g = retries_granted L (Do_backoff L)"
  shows "InitialInterval (Do_backoff L) = 200 * Millisecond \<and>
         Multiplier (Do_backoff L) = 2 \<and>
         MaxElapsedTime (Do_backoff L) = 10 * Second \<and>
         1 \<le> round_trips d \<and> round_trips d \<le> Suc g \<and>
         (\<forall>i. Suc i < round_trips d \<longrightarrow> retryable (httpClient c i req)) \<and>
         (retryable (httpClient c (round_trips d - 1) req) \<longrightarrow>
            round_trips d = Suc g \<and>
            do_err d = attempt_error (httpClient c (round_trips d - 1) req)) \<and>
         bodies_received d = filter (\<lambda>i. is_reply (httpClient c i req)) [0 ..< round_trips d] \<and>
         (bodies_received d = [] \<longrightarrow> do_resp d = None) \<and>
         (bodies_received d \<noteq> [] \<longrightarrow>
            (\<exists>h. httpClient c (last (bodies_received d)) req = Reply h \<and>
                 do_resp d = Some (newResponse L h)))"
proof -
  define R where "R = backoff_Retry (operation L c req) g 0 s0"
  obtain k where k: "k \<le> g" "round_trips d = Suc k"
    "\<forall>j < k. retryable (httpClient c j req)"
    "fst R = attempt_error (httpClient c k req)"
    "retryable (httpClient c k req) \<longrightarrow> k = g"
    "bodies_received d = filter (\<lambda>j. is_reply (httpClient c j req)) [0 ..< Suc k]"
    unfolding R_def assms by (rule Do_run [of L decode c req v]) blast
  have policy: "InitialInterval (Do_backoff L) = 200 * Millisecond \<and>
         Multiplier (Do_backoff L) = 2 \<and> MaxElapsedTime (Do_backoff L) = 10 * Second"
    by (simp add: Do_backoff_def)
  have exhausted: "do_err d = attempt_error (httpClient c k req)" if "retryable (httpClient c k req)"
  proof -
    obtain e s where R: "R = (e, s)"
      by (cases R)
    have "e = attempt_error (httpClient c k req)"
      using k(4) R by simp
    moreover have "e \<noteq> None"
      using that calculation by (simp add: attempt_error_None)
    ultimately show ?thesis
      using R unfolding assms Do_err R_def by simp
  qed
  show ?thesis
    using policy k exhausted Do_resp_last [of L decode c req v]
    by (simp add: assms(1) [symmetric])
qed

text \<open>
  Claim C5, two runs: a transport failure, a 503, then a 200 (three calls); and a 500, a
  503, then transport failures until the five retries are used up (six calls).
\<close>

theorem C5_Do_retries_witness:
  "retryable (flaky 0 req0) \<and> retryable (flaky 1 req0) \<and>
   round_trips (Do lib0 no_decode (client0 flaky ''xapt-test'') req0 NoTarget) = 3 \<and>
   round_trips (Do lib0 no_decode (client0 down ''xapt-test'') req0 NoTarget) = 6 \<and>
   do_err (Do lib0 no_decode (client0 down ''xapt-test'') req0 NoTarget) =
     Some (External ''connection reset'') \<and>
   do_resp (Do lib0 no_decode (client0 down ''xapt-test'') req0 NoTarget) =
     Some (newResponse lib0 \<lparr>StatusCode = 503, RespHeader = Map.empty, RespBody = []\<rparr>)"
proof -
  have f: "httpClient (client0 flaky ''xapt-test'') = flaky"
    and d: "httpClient (client0 down ''xapt-test'') = down"
    by (simp_all add: client0_def)
  note a = C5_Do_retries [OF refl refl, of lib0 no_decode "client0 flaky ''xapt-test''" req0 NoTarget,
      unfolded Do_flaky f]
  note b = C5_Do_retries [OF refl refl, of lib0 no_decode "client0 down ''xapt-test''" req0 NoTarget,
      unfolded Do_down d]
  have "retryable (flaky 0 req0) \<and> retryable (flaky 1 req0)"
    using a by (simp add: eval_nat_numeral)
  moreover have "do_err (Do lib0 no_decode (client0 down ''xapt-test'') req0 NoTarget) =
     Some (External ''connection reset'')"
    using b by (simp add: down_def retryable_def attempt_error_def)
  moreover have "do_resp (Do lib0 no_decode (client0 down ''xapt-test'') req0 NoTarget) =
     Some (newResponse lib0 \<lparr>StatusCode = 503, RespHeader = Map.empty, RespBody = []\<rparr>)"
    using b by (auto simp: down_def is_reply_def eval_nat_numeral)
  ultimately show ?thesis
    by (simp add: Do_flaky Do_down)
qed

text \<open>
  Claim C6. \<^verbatim>\<open>DetectContentType\<close> skips the leading white space and decides by the
  first character that is not white space: \<^verbatim>\<open>[\<close> gives JSON, \<^verbatim>\<open>{\<close> gives NDJSON, a
  letter or a double quote gives CSV, any other character fails with "cannot determine
  content type"; a stream that ends before such a character fails with "couldn't find
  beginning of supported ingestion format" (and a stream that fails to read, with its
  own error).
\<close>

theorem C6_DetectContentType_classifies:
  assumes "tables_consistent U"
  shows "map_sum id snd (DetectContentType U r) =
     (case dropWhile (\<lambda>x. IsSpace U (fst x)) (DecodeRunes U (data r)) of
        [] \<Rightarrow> Inl (if final r = EOF
                   then errorString ''couldn't find beginning of supported ingestion format''
                   else final r)
      | x # xs \<Rightarrow>
          (if fst x = of_char CHR ''['' then Inr JSON
           else if fst x = of_char CHR ''{'' then Inr NDJSON
           else if IsLetter U (fst x) \<or> fst x = of_char (CHR 0x22) then Inr CSV
           else Inl (errorString ''cannot determine content type'')))"
proof -
  have "skipped U c = IsSpace U c" for c
    using assms by (auto simp: skipped_def tables_consistent_def)
  then have eq: "(\<lambda>x. skipped U (fst x)) = (\<lambda>x. IsSpace U (fst x))"
    by simp
  define d where "d = dropWhile (\<lambda>x. IsSpace U (fst x)) (DecodeRunes U (data r))"
  show ?thesis
    unfolding DetectContentType_unfold eq d_def [symmetric]
    by (cases d) (simp_all add: classify_def exhausted_def)
qed

text \<open>
  Claim C6, the inputs of the repository's test and two more.
\<close>

theorem C6_DetectContentType_classifies_witness:
  \<open>tables_consistent ascii \<and>
   map_sum id snd (DetectContentType ascii (strings_NewReader ''  [{"a":"b"}, {"c":"d"}]'')) = Inr JSON \<and>
   map_sum id snd (DetectContentType ascii (strings_NewReader ''{"a":"b"}'')) = Inr NDJSON \<and>
   map_sum id snd (DetectContentType ascii (strings_NewReader ''Year,Make,Model,Length'')) = Inr CSV \<and>
   map_sum id snd (DetectContentType ascii (strings_NewReader [CHR 0x22, CHR ''a'', CHR 0x22])) = Inr CSV \<and>
   map_sum id snd (DetectContentType ascii (strings_NewReader [])) =
     Inl (errorString ''couldn't find beginning of supported ingestion format'') \<and>
   map_sum id snd (DetectContentType ascii (strings_NewReader ''123'')) =
     Inl (errorString ''cannot determine content type'')\<close>
proof -
  note c = C6_DetectContentType_classifies [OF ascii_consistent]
  have \<open>map_sum id snd (DetectContentType ascii (strings_NewReader ''  [{"a":"b"}, {"c":"d"}]'')) = Inr JSON\<close>
    unfolding c by (simp add: strings_NewReader_def ascii_def)
  moreover have \<open>map_sum id snd (DetectContentType ascii (strings_NewReader ''{"a":"b"}'')) = Inr NDJSON\<close>
    unfolding c by (simp add: strings_NewReader_def ascii_def)
  moreover have \<open>map_sum id snd (DetectContentType ascii (strings_NewReader ''Year,Make,Model,Length'')) = Inr CSV\<close>
    unfolding c by (simp add: strings_NewReader_def ascii_def)
  moreover have \<open>map_sum id snd (DetectContentType ascii (strings_NewReader [CHR 0x22, CHR ''a'', CHR 0x22])) = Inr CSV\<close>
    unfolding c by (simp add: strings_NewReader_def ascii_def)
  moreover have \<open>map_sum id snd (DetectContentType ascii (strings_NewReader [])) =
     Inl (errorString ''couldn't find beginning of supported ingestion format'')\<close>
    unfolding c by (simp add: strings_NewReader_def ascii_def)
  moreover have \<open>map_sum id snd (DetectContentType ascii (strings_NewReader ''123'')) =
     Inl (errorString ''cannot determine content type'')\<close>
    unfolding c by (simp add: strings_NewReader_def ascii_def)
  ultimately show ?thesis
    using ascii_consistent by blast
qed

text \<open>
  Claim C7, as amended. When the call \<^verbatim>\<open>Do\<close> ends on returned a status from 400 to
  499: 401 gives \<^verbatim>\<open>ErrUnauthenticated\<close>, 403 \<^verbatim>\<open>ErrUnauthorized\<close>, 404
  \<^verbatim>\<open>ErrNotFound\<close>, 409 \<^verbatim>\<open>ErrExists\<close>, 429 and \<^verbatim>\<open>httpStatusLimitExceeded\<close> a
  \<^verbatim>\<open>LimitError\<close> with the limit of the response; otherwise a body that is not JSON gives
  an \<^verbatim>\<open>Error\<close> with the status text; a JSON body that fails to decode gives the
  decoder's error, wrapped; and a JSON body that decodes into an \<^verbatim>\<open>Error\<close> gives that
  \<^verbatim>\<open>Error\<close>, whose message, when it is empty, becomes the text the decoder has read
  from the body with every line feed replaced by a space (not removed). Nothing is said
  of a JSON body for which the decoder leaves no \<^verbatim>\<open>Error\<close> at all (the JSON value
  \<^verbatim>\<open>null\<close>).
\<close>

theorem C7_error_classification:
  assumes "httpClient c (round_trips (Do L decode c req v) - 1) req = Reply h"
    and "400 \<le> StatusCode h" and "StatusCode h < 500"
  shows "(if StatusCode h = 401 then do_err (Do L decode c req v) = Some ErrUnauthenticated
      else if StatusCode h = 403 then do_err (Do L decode c req v) = Some ErrUnauthorized
      else if StatusCode h = 404 then do_err (Do L decode c req v) = Some ErrNotFound
      else if StatusCode h = 409 then do_err (Do L decode c req v) = Some ErrExists
      else if StatusCode h = 429 \<or> StatusCode h = httpStatusLimitExceeded L
      then do_err (Do L decode c req v) = Some (LimitError (limitOf L h))
      else if \<not> prefix ''application/json'' (Header_Get (RespHeader h) ''Content-Type'')
      then do_err (Do L decode c req v) =
             Some (HTTPError \<lparr>Status = StatusCode h, Message = StatusText L (StatusCode h)\<rparr>)
      else (case decodeError L (RespBody h) \<lparr>Status = StatusCode h, Message = []\<rparr> of
          (n, Inl msg) \<Rightarrow>
            do_err (Do L decode c req v) =
              Some (ErrorfW ''error decoding %d error response: %w'' (StatusCode h) (External msg))
        | (n, Inr None) \<Rightarrow> True
        | (n, Inr (Some e)) \<Rightarrow>
            do_err (Do L decode c req v) =
              Some (HTTPError (if Message e = []
                then e\<lparr>Message := map (\<lambda>b. if b = CHR 0x0A then CHR '' '' else b)
                                       (take n (RespBody h))\<rparr>
                else e))))"
  using assms(2)
  unfolding Do_final_reply(2) [OF assms(1) assms(3)]
  by (simp add: error_of_response_def newResponse_def ReplaceAll_def mediaTypeJSON_def
      headerContentType_def Let_def split: prod.splits sum.splits option.splits)

text \<open>
  Claim C7, instances: one response for each branch.
\<close>

theorem C7_error_classification_witness:
  "do_err (Do lib0 no_decode (client0 (status_only 401) ''xapt-test'') req0 NoTarget) =
     Some ErrUnauthenticated \<and>
   do_err (Do lib0 no_decode (client0 (status_only 403) ''xapt-test'') req0 NoTarget) =
     Some ErrUnauthorized \<and>
   do_err (Do lib0 no_decode (client0 (status_only 404) ''xapt-test'') req0 NoTarget) =
     Some ErrNotFound \<and>
   do_err (Do lib0 no_decode (client0 (status_only 409) ''xapt-test'') req0 NoTarget) =
     Some ErrExists \<and>
   do_err (Do lib0 no_decode (client0 (status_only 429) ''xapt-test'') req0 NoTarget) =
     Some (LimitError \<lparr>limit = 0, remaining = 0, reset = 0\<rparr>) \<and>
   do_err (Do lib0 no_decode (client0 (status_only 430) ''xapt-test'') req0 NoTarget) =
     Some (LimitError \<lparr>limit = 0, remaining = 0, reset = 0\<rparr>) \<and>
   do_err (Do lib0 no_decode (client0 (status_only 418) ''xapt-test'') req0 NoTarget) =
     Some (HTTPError \<lparr>Status = 418, Message = ''I'm a teapot''\<rparr>) \<and>
   do_err (Do lib0 no_decode (client0 (json_error_body (''{'' @ [CHR 0x0A] @ ''}'')) ''xapt-test'') req0 NoTarget) =
     Some (HTTPError \<lparr>Status = 400, Message = ''{ }''\<rparr>)"
proof -
  have once: "round_trips (Do lib0 no_decode (client0 (status_only code) ''xapt-test'') req0 NoTarget) - 1 = 0"
    if "code < 500" for code
    using that by (simp add: Do_once status_only_def)
  have l: "httpStatusLimitExceeded lib0 = 430" "limitOf lib0 x = \<lparr>limit = 0, remaining = 0, reset = 0\<rparr>" for x
    by (simp_all add: lib0_def)
  have s: "do_err (Do lib0 no_decode (client0 (status_only code) ''xapt-test'') req0 NoTarget) = Some
     (if code = 401 then ErrUnauthenticated
      else if code = 403 then ErrUnauthorized
      else if code = 404 then ErrNotFound
      else if code = 409 then ErrExists
      else if code = 429 \<or> code = 430 then LimitError \<lparr>limit = 0, remaining = 0, reset = 0\<rparr>
      else HTTPError \<lparr>Status = code, Message = StatusText lib0 code\<rparr>)"
    if "400 \<le> code" "code < 500" for code
    using C7_error_classification [of "client0 (status_only code) ''xapt-test''" lib0 no_decode req0 NoTarget
        "\<lparr>StatusCode = code, RespHeader = Map.empty, RespBody = []\<rparr>"] that
    by (auto simp: once client0_def status_only_def l Header_Get_def split: if_splits)
  have j: "do_err (Do lib0 no_decode (client0 (json_error_body (''{'' @ [CHR 0x0A] @ ''}'')) ''xapt-test'') req0 NoTarget) =
     Some (HTTPError \<lparr>Status = 400, Message = ''{ }''\<rparr>)"
    using C7_error_classification [of "client0 (json_error_body (''{'' @ [CHR 0x0A] @ ''}'')) ''xapt-test''"
        lib0 no_decode req0 NoTarget
        "\<lparr>StatusCode = 400, RespHeader = [''Content-Type'' \<mapsto> ''application/json''],
          RespBody = ''{'' @ [CHR 0x0A] @ ''}''\<rparr>"]
    by (simp add: Do_once json_error_body_def client0_def lib0_def Header_Get_def)
  show ?thesis
    using s [of 401] s [of 403] s [of 404] s [of 409] s [of 429] s [of 430] s [of 418] j
    by (simp add: lib0_def)
qed

text \<open>
  Claim C7 as stated fails in its last part: for the JSON error body of an opening
  brace, a line feed and a closing brace, the message is the body with the line feed
  replaced by a space, not the body with the line feed stripped.
\<close>

theorem C7_newlines_become_spaces:
  "strip_newlines (''{'' @ [CHR 0x0A] @ ''}'') = ''{}'' \<and>
   do_err (Do lib0 no_decode (client0 (json_error_body (''{'' @ [CHR 0x0A] @ ''}'')) ''xapt-test'') req0 NoTarget) =
     Some (HTTPError \<lparr>Status = 400, Message = ''{ }''\<rparr>) \<and>
   do_err (Do lib0 no_decode (client0 (json_error_body (''{'' @ [CHR 0x0A] @ ''}'')) ''xapt-test'') req0 NoTarget) \<noteq>
     Some (HTTPError \<lparr>Status = 400, Message = strip_newlines (''{'' @ [CHR 0x0A] @ ''}'')\<rparr>)"
  by (simp add: strip_newlines_def Do_def operation_def lib0_def client0_def json_error_body_def
      newResponse_def error_of_response_def Header_Get_def ReplaceAll_def mediaTypeJSON_def
      headerContentType_def eval_nat_numeral Let_def)



text \<open>
  Claim C9 says that \<^verbatim>\<open>Do\<close> drains and closes the body of every response it
  received, those of retried attempts included. The deferred function closes the body
  of \<^verbatim>\<open>resp\<close> only, the response of the last attempt: when the server answers 500
  and then 200, two responses are received and only the second body is closed.
\<close>

theorem C9_retried_response_left_open:
  "bodies_received (Do lib0 no_decode (client0 retried_then_ok ''xapt-test'') req0 NoTarget) = [0, 1] \<and>
   bodies_closed (Do lib0 no_decode (client0 retried_then_ok ''xapt-test'') req0 NoTarget) = [1] \<and>
   do_err (Do lib0 no_decode (client0 retried_then_ok ''xapt-test'') req0 NoTarget) = None"
  by (simp add: Do_def operation_def lib0_def client0_def retried_then_ok_def
      newResponse_def read_response_def eval_nat_numeral Let_def)

text \<open>
  Claim C10. A request that \<^verbatim>\<open>NewRequest\<close> builds has: for a nil body, no body and
  no Content-Type header; for an \<^verbatim>\<open>io.Reader\<close>, that reader as its body and
  Content-Type \<^verbatim>\<open>application/octet-stream\<close>; for any other value, the JSON encoding
  of the value (its JSON text and a line feed) as its body and Content-Type
  \<^verbatim>\<open>application/json\<close>.
\<close>

theorem C10_NewRequest_body:
  assumes "NewRequest L marshal c method path b = Inr req"
  shows "(b = nil \<longrightarrow> Body req = None \<and> Header req ''Content-Type'' = None) \<and>
         (\<forall>r. b = Reader r \<longrightarrow>
            Body req = Some r \<and> Header req ''Content-Type'' = Some ''application/octet-stream'') \<and>
         (\<forall>v. b = Value v \<longrightarrow>
            (\<exists>js. marshal v = Inr js \<and> Body req = Some (bytes_Buffer (js @ [CHR 0x0A]))) \<and>
            Header req ''Content-Type'' = Some ''application/json'')"
  using assms
  by (cases b)
     (auto simp: NewRequest_def Let_def body_reader_def Encoder_Encode_def
        headerContentType_def headerAuthorization_def headerOrganizationID_def
        headerAccept_def headerUserAgent_def mediaTypeJSON_def defaultMediaType_def
      split: sum.splits option.splits if_splits)

text \<open>
  Claim C10, one request of each kind.
\<close>

theorem C10_NewRequest_body_witness:
  "(\<exists>req. NewRequest lib0 no_json (client0 ok200 ''xapt-test'') ''POST'' ''/api/v1/datasets'' (Value ()) = Inr req \<and>
      Body req = Some (bytes_Buffer (''null'' @ [CHR 0x0A])) \<and>
      Header req ''Content-Type'' = Some ''application/json'') \<and>
   (\<exists>req. NewRequest lib0 no_json (client0 ok200 ''xapt-test'') ''POST'' ''/api/v1/datasets/test/ingest''
              (Reader (strings_NewReader ''abc'')) = Inr req \<and>
      Body req = Some (strings_NewReader ''abc'') \<and>
      Header req ''Content-Type'' = Some ''application/octet-stream'') \<and>
   (\<exists>req. NewRequest lib0 no_json (client0 ok200 ''xapt-test'') ''GET'' ''/api/v1/datasets'' nil = Inr req \<and>
      Body req = None \<and> Header req ''Content-Type'' = None)"
proof -
  obtain r1 where r1: "NewRequest lib0 no_json (client0 ok200 ''xapt-test'') ''POST'' ''/api/v1/datasets'' (Value ()) = Inr r1"
    by (simp add: NewRequest_def lib0_def client0_def url0_def body_reader_def Encoder_Encode_def no_json_def)
  obtain r2 where r2: "NewRequest lib0 no_json (client0 ok200 ''xapt-test'') ''POST'' ''/api/v1/datasets/test/ingest''
              (Reader (strings_NewReader ''abc'')) = Inr r2"
    by (simp add: NewRequest_def lib0_def client0_def url0_def body_reader_def)
  obtain r3 where r3: "NewRequest lib0 no_json (client0 ok200 ''xapt-test'') ''GET'' ''/api/v1/datasets'' nil = Inr r3"
    by (simp add: NewRequest_def lib0_def client0_def url0_def body_reader_def)
  show ?thesis
    using C10_NewRequest_body [OF r1] C10_NewRequest_body [OF r2] C10_NewRequest_body [OF r3] r1 r2 r3
    by (simp add: no_json_def)
qed

section \<open>Further properties\<close>

text \<open>
  What the reader returned by \<^verbatim>\<open>DetectContentType\<close> holds: the bytes of the input
  from its first character that is not white space, and the input's final error.
\<close>

theorem DetectContentType_returns_rest:
  assumes "tables_consistent U" and "DetectContentType U r = Inr (r', typ)"
  shows "data r' = concat (map snd (dropWhile (\<lambda>x. IsSpace U (fst x)) (DecodeRunes U (data r)))) \<and>
         final r' = final r"
proof -
  have "skipped U c = IsSpace U c" for c
    using assms(1) by (auto simp: skipped_def tables_consistent_def)
  then have eq: "(\<lambda>x. skipped U (fst x)) = (\<lambda>x. IsSpace U (fst x))"
    by simp
  define d where "d = dropWhile (\<lambda>x. IsSpace U (fst x)) (DecodeRunes U (data r))"
  show ?thesis
    using assms(2)
    unfolding DetectContentType_unfold eq d_def [symmetric]
    by (cases d) (auto split: sum.splits)
qed

text \<open>
  An instance: two spaces before an array.
\<close>

theorem DetectContentType_returns_rest_witness:
  "data (fst (projr (DetectContentType ascii (strings_NewReader ''  [1, 2]'')))) = ''[1, 2]''"
proof -
  have "DetectContentType ascii (strings_NewReader ''  [1, 2]'') =
        Inr (strings_NewReader ''[1, 2]'', JSON)"
    by (simp add: DetectContentType_unfold strings_NewReader_def ascii_def skipped_def classify_def)
  from DetectContentType_returns_rest [OF ascii_consistent this] show ?thesis
    by (simp add: DetectContentType_unfold strings_NewReader_def ascii_def skipped_def classify_def)
qed

text \<open>
  \<^verbatim>\<open>Do\<close> drains and closes the body of the last response it received, and no other.
\<close>

theorem Do_closes_last_response:
  "bodies_closed (Do L decode c req v) =
     (if bodies_received (Do L decode c req v) = [] then []
      else [last (bodies_received (Do L decode c req v))])"
  using Retry_resp_is_last [OF s0_resp_is_last, of L c req "retries_granted L (Do_backoff L)" 0]
  by (auto simp: Do_fields resp_is_last_def split: option.splits)

text \<open>
  A response of status 400 whose JSON body is \<^verbatim>\<open>null\<close>: the decoder leaves
  \<^verbatim>\<open>errResp\<close> nil and \<^verbatim>\<open>Do\<close> panics when it reads \<^verbatim>\<open>errResp.Message\<close>; the deferred
  function still closes the body.
\<close>

theorem Do_null_error_body_panics:
  "do_err (Do lib0 no_decode (client0 (json_error_body ''null'') ''xapt-test'') req0 NoTarget) =
     Some NilDereference \<and>
   bodies_closed (Do lib0 no_decode (client0 (json_error_body ''null'') ''xapt-test'') req0 NoTarget) = [0]"
  by (simp add: Do_def operation_def lib0_def client0_def json_error_body_def
      newResponse_def error_of_response_def Header_Get_def ReplaceAll_def mediaTypeJSON_def
      headerContentType_def eval_nat_numeral Let_def)

end
